theory Spec2Isabelle
  imports Main
begin

section \<open>Errors\<close>

text \<open>
  Go errors as values.  \<open>AddrError why addr\<close> is \<open>net.AddrError\<close> as \<open>net.SplitHostPort\<close>
  builds it; \<open>Errorf fmt args\<close> is \<open>fmt.Errorf\<close> (and \<open>errors.New\<close>, with no
  arguments) with the format string exactly as the source writes it; \<open>OSError\<close> is an
  error handed back by the operating system or by a collaborator of \<open>GetNew\<close>.
  The named result \<open>e\<close> of \<open>GetNew\<close> is an \<open>error option\<close>, \<open>None\<close> being \<open>nil\<close>.
\<close>

datatype error =
    AddrError string string
  | Errorf string "arg list"
  | OSError string
and arg = S string | E error | I int

text \<open>\<open>E.Chk(e)\<close> and \<open>F.Chk(e)\<close> of the logger: log the error, answer whether there is one.\<close>

definition Chk :: "error option \<Rightarrow> bool" where
  "Chk e = (e \<noteq> None)"

section \<open>The standard-library functions the pipeline calls\<close>

subsection \<open>\<open>net.SplitHostPort\<close> and \<open>net.JoinHostPort\<close>\<close>

fun IndexByte :: "string \<Rightarrow> char \<Rightarrow> nat option" where
  "IndexByte [] c = None"
| "IndexByte (x # xs) c = (if x = c then Some 0 else map_option Suc (IndexByte xs c))"

definition LastIndexByte :: "string \<Rightarrow> char \<Rightarrow> nat option" where
  "LastIndexByte s c =
     (case IndexByte (rev s) c of None \<Rightarrow> None | Some k \<Rightarrow> Some (length s - 1 - k))"

definition missingPort :: string where
  "missingPort = ''missing port in address''"

definition tooManyColons :: string where
  "tooManyColons = ''too many colons in address''"

text \<open>
  The two closing checks of \<open>SplitHostPort\<close>: no \<open>[\<close> from position \<open>j\<close> on, no \<open>]\<close> from
  position \<open>k\<close> on; then the port is what follows the last colon, at \<open>i\<close>.
\<close>

definition split_tail ::
  "string \<Rightarrow> nat \<Rightarrow> nat \<Rightarrow> nat \<Rightarrow> string \<Rightarrow> error + (string \<times> string)" where
  "split_tail hostport i j k host =
     (if IndexByte (drop j hostport) (CHR ''['') \<noteq> None
        then Inl (AddrError ''unexpected '[' in address'' hostport)
      else if IndexByte (drop k hostport) (CHR '']'') \<noteq> None
        then Inl (AddrError ''unexpected ']' in address'' hostport)
      else Inr (host, drop (i + 1) hostport))"

definition SplitHostPort :: "string \<Rightarrow> error + (string \<times> string)" where
  "SplitHostPort hostport =
     (case LastIndexByte hostport (CHR '':'') of
        None \<Rightarrow> Inl (AddrError missingPort hostport)
      | Some i \<Rightarrow>
          if take 1 hostport = ''[''
          then (case IndexByte hostport (CHR '']'') of
                  None \<Rightarrow> Inl (AddrError ''missing ']' in address'' hostport)
                | Some end \<Rightarrow>
                    if end + 1 = length hostport
                      then Inl (AddrError missingPort hostport)
                    else if end + 1 = i
                      then split_tail hostport i 1 (end + 1) (take (end - 1) (drop 1 hostport))
                    else if take 1 (drop (end + 1) hostport) = '':''
                      then Inl (AddrError tooManyColons hostport)
                    else Inl (AddrError missingPort hostport))
          else if IndexByte (take i hostport) (CHR '':'') \<noteq> None
            then Inl (AddrError tooManyColons hostport)
          else split_tail hostport i 0 0 (take i hostport))"

definition JoinHostPort :: "string \<Rightarrow> string \<Rightarrow> string" where
  "JoinHostPort host port =
     (if IndexByte host (CHR '':'') \<noteq> None \<or> IndexByte host (CHR ''%'') \<noteq> None
      then ''['' @ host @ '']:'' @ port
      else host @ '':'' @ port)"

subsection \<open>\<open>fmt.Sprint\<close> of an int, \<open>strconv.Atoi\<close>, \<open>strings.ContainsAny\<close>, \<open>filepath.Split\<close>\<close>

definition digit_char :: "nat \<Rightarrow> char" where
  "digit_char d = char_of (48 + d)"

fun decimal :: "nat \<Rightarrow> string" where
  "decimal n = (if n < 10 then [digit_char n] else decimal (n div 10) @ [digit_char (n mod 10)])"

declare decimal.simps [simp del]

definition Sprint :: "int \<Rightarrow> string" where
  "Sprint n = (if n < 0 then CHR ''-'' # decimal (nat (- n)) else decimal (nat n))"

definition is_digit :: "char \<Rightarrow> bool" where
  "is_digit c = ((48::nat) \<le> of_char c \<and> (of_char c :: nat) \<le> 57)"

definition digits_value :: "string \<Rightarrow> int" where
  "digits_value ds = foldl (\<lambda>n ch. n * 10 + (of_char ch - 48)) 0 ds"

text \<open>
  \<open>strconv.Atoi\<close>: an optional sign, then one or more decimal digits; a value outside
  the 64-bit \<open>int\<close> is an error.  \<open>None\<close> stands for the non-nil error.
\<close>

definition Atoi :: "string \<Rightarrow> int option" where
  "Atoi s =
     (let neg = (take 1 s = ''-'');
          ds = (if take 1 s = ''-'' \<or> take 1 s = ''+'' then drop 1 s else s);
          v = (if neg then - digits_value ds else digits_value ds)
      in if ds = [] \<or> \<not> list_all is_digit ds then None
         else if v < - (2 ^ 63) \<or> 2 ^ 63 - 1 < v then None
         else Some v)"

definition ContainsAny :: "string \<Rightarrow> string \<Rightarrow> bool" where
  "ContainsAny s chars = list_ex (\<lambda>c. c \<in> set chars) s"

text \<open>\<open>filepath.Split\<close> on a system whose separator is the slash: the directory part.\<close>

definition Split_dir :: "string \<Rightarrow> string" where
  "Split_dir path = rev (dropWhile (\<lambda>c. c \<noteq> CHR ''/'') (rev path))"

section \<open>The data of the pipeline\<close>

subsection \<open>The configuration\<close>

text \<open>
  Modelled from the spec: the option cells of \<open>pod/config\<close> and \<open>pkg/opts\<close>, which are
  not among the sources at hand.  The spec's data model has the pipeline borrow the
  configuration and write back "only through defined mutation points", so a cell is a
  field holding a value: \<open>V()\<close> and \<open>S()\<close> read the field (for a list, a value of its own,
  not a view on the stored one), \<open>Empty()\<close> is \<open>V() = ""\<close>, \<open>Len()\<close> the length,
  \<open>True()\<close>/\<open>False()\<close> the boolean and its negation, \<open>T()\<close> stores \<open>true\<close>, and \<open>Set(v)\<close>
  stores \<open>v\<close> and reports no error.  The fields are those \<open>GetNew\<close> reads or writes, under
  the source's names; \<open>MinRelayTxFee\<close> is a float and is seen only through the result of
  \<open>amt.NewAmount\<close>, a parameter below.
\<close>

record config =
  Network :: string
  LAN :: bool
  Solo :: bool
  PipeLog :: bool
  LogDir :: string
  DataDir :: string
  ClientTLS :: bool
  ServerTLS :: bool
  OneTimeTLSKey :: bool
  RPCKey :: string
  RPCCert :: string
  CAFile :: string
  Profile :: string
  AddPeers :: "string list"
  ConnectPeers :: "string list"
  P2PConnect :: "string list"
  P2PListeners :: "string list"
  RPCListeners :: "string list"
  WalletRPCListeners :: "string list"
  DisableListen :: bool
  DisableDNSSeed :: bool
  DisableRPC :: bool
  RelayNonStd :: bool
  RejectNonStd :: bool
  Username :: string
  Password :: string
  LimitUser :: string
  LimitPass :: string
  UserAgentComments :: "string list"
  AutoListen :: bool
  AutoPorts :: bool
  RPCMaxConcurrentReqs :: int
  ProxyAddress :: string
  ProxyUser :: string
  ProxyPass :: string
  OnionEnabled :: bool
  OnionProxyAddress :: string
  OnionProxyUser :: string
  OnionProxyPass :: string
  TorIsolation :: bool
  ConfigFile :: string
  RunningCommand_Name :: string

text \<open>\<open>Set\<close> on a cell: the new configuration and the error it reports.\<close>

definition Set_LogDir :: "string \<Rightarrow> config \<Rightarrow> config \<times> error option" where
  "Set_LogDir v c = (c\<lparr>LogDir := v\<rparr>, None)"

definition Set_P2PConnect :: "string list \<Rightarrow> config \<Rightarrow> config \<times> error option" where
  "Set_P2PConnect v c = (c\<lparr>P2PConnect := v\<rparr>, None)"

definition Set_P2PListeners :: "string list \<Rightarrow> config \<Rightarrow> config \<times> error option" where
  "Set_P2PListeners v c = (c\<lparr>P2PListeners := v\<rparr>, None)"

definition Set_RPCListeners :: "string list \<Rightarrow> config \<Rightarrow> config \<times> error option" where
  "Set_RPCListeners v c = (c\<lparr>RPCListeners := v\<rparr>, None)"

definition Set_WalletRPCListeners :: "string list \<Rightarrow> config \<Rightarrow> config \<times> error option" where
  "Set_WalletRPCListeners v c = (c\<lparr>WalletRPCListeners := v\<rparr>, None)"

definition Set_OnionProxyAddress :: "string \<Rightarrow> config \<Rightarrow> config \<times> error option" where
  "Set_OnionProxyAddress v c = (c\<lparr>OnionProxyAddress := v\<rparr>, None)"

subsection \<open>Chain parameters\<close>

text \<open>
  The four parameter sets of \<open>chaincfg\<close>.  \<open>GetNew\<close> reads their \<open>Name\<close> and
  \<open>DefaultPort\<close>; the values are declared outside the sources at hand and are
  parameters of the model (\<open>Name\<close> and \<open>DefaultPort\<close> of the environment).
\<close>

datatype chain_params = MainNetParams | TestNet3Params | RegressionTestParams | SimNetParams

subsection \<open>The transport functions\<close>

text \<open>
  \<open>socks.Proxy{Addr, Username, Password, TorIsolation}\<close>, in this order.
\<close>

datatype socks_Proxy = socks_Proxy string string string bool

text \<open>
  The function values \<open>GetNew\<close> stores in \<open>StateCfg.Dial\<close> and \<open>StateCfg.Oniondial\<close>:
  \<open>net.DialTimeout\<close>; the method value \<open>proxy.DialTimeout\<close> of a proxy built during the
  composition; the closure of lines 468-476, which builds its proxy from the onion
  fields of the configuration each time it is called; the closure of lines 491-495.
\<close>

datatype dial_fn =
    net_DialTimeout
  | proxy_DialTimeout socks_Proxy
  | onion_proxy_closure
  | tor_disabled_closure

text \<open>
  The function values stored in \<open>StateCfg.Lookup\<close>: \<open>net.LookupIP\<close>; the closure of
  lines 438-440, \<open>connmgr.TorLookupIP(host, s.Config.ProxyAddress.V())\<close>; the closure of
  lines 483-485, \<open>connmgr.TorLookupIP(host, s.Config.OnionProxyAddress.V())\<close>.
\<close>

datatype lookup_fn =
    net_LookupIP
  | tor_lookup_proxy_closure
  | tor_lookup_onionproxy_closure

text \<open>
  What a call of such a function does, up to the network: a direct dial, a dial
  through a SOCKS proxy, an error at once; a lookup by the system resolver, a lookup
  through the SOCKS proxy at an address.  The closures read the configuration when
  they are called, so a call takes the configuration of that moment.
\<close>

datatype dial_call =
    direct_dial string string nat
  | socks_dial socks_Proxy string string nat
  | dial_fails error

datatype lookup_call =
    system_lookup string
  | TorLookupIP string string

fun call_dial :: "config \<Rightarrow> dial_fn \<Rightarrow> string \<Rightarrow> string \<Rightarrow> nat \<Rightarrow> dial_call" where
  "call_dial c net_DialTimeout network addr timeout = direct_dial network addr timeout"
| "call_dial c (proxy_DialTimeout p) network addr timeout = socks_dial p network addr timeout"
| "call_dial c onion_proxy_closure network addr timeout =
     socks_dial (socks_Proxy (OnionProxyAddress c) (OnionProxyUser c) (OnionProxyPass c)
                             (TorIsolation c)) network addr timeout"
| "call_dial c tor_disabled_closure a b t = dial_fails (Errorf ''tor has been disabled'' [])"

fun call_lookup :: "config \<Rightarrow> lookup_fn \<Rightarrow> string \<Rightarrow> lookup_call" where
  "call_lookup c net_LookupIP host = system_lookup host"
| "call_lookup c tor_lookup_proxy_closure host = TorLookupIP host (ProxyAddress c)"
| "call_lookup c tor_lookup_onionproxy_closure host = TorLookupIP host (OnionProxyAddress c)"

subsection \<open>The state\<close>

text \<open>
  \<open>active.Config\<close>, the \<open>StateCfg\<close> of the state: the three transport functions (nil
  until the composition stores them), the save flag and the relay fee.
\<close>

record state_cfg =
  Dial :: "dial_fn option"
  Lookup :: "lookup_fn option"
  Oniondial :: "dial_fn option"
  Save :: bool
  ActiveMinRelayTxFee :: int

text \<open>
  What \<open>GetNew\<close> works on: the \<open>State\<close> it builds (the caller's configuration, which it
  holds by pointer, the active network, the \<open>StateCfg\<close>), its named result \<open>e\<close> (the
  field \<open>err\<close>), and the part of the process and of the machine it touches: the global
  \<open>fork.IsTestnet\<close>, the regular files on disk by path, whether the pipe logger was
  started, and how many times \<open>GetFreePort\<close> was called.
\<close>

record state =
  Config :: config
  ActiveNet :: "chain_params option"
  StateCfg :: state_cfg
  err :: "error option"
  IsTestnet :: bool
  files :: "string \<rightharpoonup> string"
  LogServe_started :: bool
  probes :: nat

subsection \<open>The environment\<close>

text \<open>
  What a write of \<open>ioutil.WriteFile\<close> comes to: the file holds the data, or the write
  fails with an error and leaves the path as it was (\<open>None\<close>) or with some other
  content, a truncated or partial file (\<open>Some\<close>).
\<close>

datatype write_outcome = Written | WriteFailed error "string option"

datatype tls_file = CertFile | CAFileCopy | KeyFile

text \<open>
  The collaborators of \<open>GetNew\<close> and the operating system, as parameters: the result of
  \<open>config.Initialize\<close>; \<open>Name\<close> and \<open>DefaultPort\<close> of the chain parameters;
  \<open>filepath.Join\<close>; \<open>os.MkdirAll\<close> by path; \<open>util.NewTLSCertPair\<close> and
  \<open>tls.X509KeyPair\<close>; the outcome of each of the three writes; whether \<open>os.Remove\<close> of an
  existing path is refused; \<open>amt.NewAmount\<close> of the configured relay fee; the addresses
  \<open>routeable.GetAddressesAndInterfaces\<close> hands out, in the order the range over the map
  visits them; \<open>net.ResolveTCPAddr\<close> and \<open>net.ListenTCP\<close> at the n-th call of
  \<open>GetFreePort\<close> (the port bound, or the error); what \<open>WriteToFile\<close> writes for a
  configuration, or its error.
\<close>

record env =
  Initialize :: "config \<Rightarrow> error + config"
  Name :: "chain_params \<Rightarrow> string"
  DefaultPort :: "chain_params \<Rightarrow> string"
  filepath_Join :: "string \<Rightarrow> string \<Rightarrow> string"
  MkdirAll :: "string \<Rightarrow> error option"
  NewTLSCertPair :: "error + (string \<times> string)"
  X509KeyPair :: "string \<Rightarrow> string \<Rightarrow> error option"
  WriteFile :: "tls_file \<Rightarrow> write_outcome"
  Remove_refused :: "string \<Rightarrow> error option"
  NewAmount :: "error + int"
  allAddresses :: "string list"
  ResolveTCPAddr :: "nat \<Rightarrow> error option"
  ListenTCP :: "nat \<Rightarrow> error + int"
  WriteToFile :: "config \<Rightarrow> error + string"

section \<open>The pipeline, \<open>GetNew\<close>\<close>

text \<open>
  \<open>GetNew\<close> is one long function; the model cuts it into its consecutive blocks, one
  definition per block, in the order of the source.  A block ends in one of four
  ways: control falls through to the next block (\<open>Continue\<close>), the function returns
  (\<open>Return\<close>: its results are the state and the field \<open>err\<close>, the named result \<open>e\<close>),
  the process exits (\<open>os.Exit\<close>), or the function panics.
\<close>

datatype outcome = Continue state | Return state | Exit nat | Panic error

fun run_stages :: "(state \<Rightarrow> outcome) list \<Rightarrow> state \<Rightarrow> outcome" where
  "run_stages [] s = Continue s"
| "run_stages (f # fs) s = (case f s of Continue s' \<Rightarrow> run_stages fs s' | r \<Rightarrow> r)"

text \<open>Reading a field of \<open>s.ActiveNet\<close>: a nil pointer panics.\<close>

definition with_ActiveNet :: "state \<Rightarrow> (chain_params \<Rightarrow> outcome) \<Rightarrow> outcome" where
  "with_ActiveNet s f =
     (case ActiveNet s of
        None \<Rightarrow> Panic (OSError ''invalid memory address or nil pointer dereference'')
      | Some p \<Rightarrow> f p)"

text \<open>
  Lines 118-126: the fresh state.  \<open>fork.IsTestnet\<close> is a package variable, false
  when the process starts; no port has been probed and no logger started.
\<close>

definition new_State :: "(string \<rightharpoonup> string) \<Rightarrow> config \<Rightarrow> state" where
  "new_State fs c =
     \<lparr>Config = c, ActiveNet = None,
      StateCfg = \<lparr>Dial = None, Lookup = None, Oniondial = None, Save = False,
                  ActiveMinRelayTxFee = 0\<rparr>,
      err = None, IsTestnet = False, files = fs, LogServe_started = False, probes = 0\<rparr>"

subsection \<open>Lines 129-147: the network selector\<close>

definition select_network :: "state \<Rightarrow> outcome" where
  "select_network s =
     (let n = Network (Config s) in
      if n = ''testnet'' \<or> n = ''testnet3'' \<or> n = ''t''
        then Continue (s\<lparr>ActiveNet := Some TestNet3Params, IsTestnet := True\<rparr>)
      else if n = ''regtestnet'' \<or> n = ''regressiontest'' \<or> n = ''r''
        then Continue (s\<lparr>IsTestnet := True, ActiveNet := Some RegressionTestParams\<rparr>)
      else if n = ''simnet'' \<or> n = ''s''
        then Continue (s\<lparr>IsTestnet := True, ActiveNet := Some SimNetParams\<rparr>)
      else Continue (s\<lparr>ActiveNet := Some MainNetParams\<rparr>))"

subsection \<open>Lines 148-161: LAN and Solo on mainnet, the pipe logger, the log directory\<close>

definition check_lan_solo :: "env \<Rightarrow> state \<Rightarrow> outcome" where
  "check_lan_solo ev s =
     (if LAN (Config s) \<or> Solo (Config s)
      then with_ActiveNet s (\<lambda>p.
             if Name ev p = ''mainnet''
             then Return (s\<lparr>err := Some (Errorf
                    ''neither Solo or LAN can be active on mainnet for obvious reasons'' [])\<rparr>)
             else Continue s)
      else Continue s)"

definition start_pipe_log :: "state \<Rightarrow> outcome" where
  "start_pipe_log s =
     (if PipeLog (Config s) then Continue (s\<lparr>LogServe_started := True\<rparr>) else Continue s)"

definition set_log_dir :: "env \<Rightarrow> state \<Rightarrow> outcome" where
  "set_log_dir ev s =
     (if LogDir (Config s) = DataDir (Config s)
      then with_ActiveNet s (\<lambda>p.
             case Set_LogDir (filepath_Join ev (DataDir (Config s)) (Name ev p)) (Config s) of
               (c, e) \<Rightarrow> Continue (s\<lparr>Config := c, err := e\<rparr>))
      else Continue s)"

subsection \<open>Lines 162-229: the TLS credentials\<close>

text \<open>
  Modelled from the spec: \<open>apputil.FileExists\<close>, not among the sources at hand; the
  spec's "file absent": something is on disk at the path.
\<close>

definition FileExists :: "(string \<rightharpoonup> string) \<Rightarrow> string \<Rightarrow> bool" where
  "FileExists fs path = (fs path \<noteq> None)"

text \<open>
  \<open>os.Remove\<close>: an error when nothing is at the path or when the system refuses; else
  the path is gone.  \<open>ioutil.WriteFile\<close> at one of the three call sites.
\<close>

definition os_Remove ::
  "env \<Rightarrow> string \<Rightarrow> (string \<rightharpoonup> string) \<Rightarrow> (string \<rightharpoonup> string) \<times> error option" where
  "os_Remove ev path fs =
     (case fs path of
        None \<Rightarrow> (fs, Some (OSError ''no such file or directory''))
      | Some old \<Rightarrow>
          (case Remove_refused ev path of
             Some e \<Rightarrow> (fs, Some e)
           | None \<Rightarrow> (fs(path := None), None)))"

definition ioutil_WriteFile ::
  "env \<Rightarrow> tls_file \<Rightarrow> string \<Rightarrow> string \<Rightarrow> (string \<rightharpoonup> string)
     \<Rightarrow> (string \<rightharpoonup> string) \<times> error option" where
  "ioutil_WriteFile ev site path data fs =
     (case WriteFile ev site of
        Written \<Rightarrow> (fs(path \<mapsto> data), None)
      | WriteFailed e None \<Rightarrow> (fs, Some e)
      | WriteFailed e (Some partial) \<Rightarrow> (fs(path \<mapsto> partial), Some e))"

text \<open>Lines 198-227: the three writes, each with its clean-up.\<close>

definition write_credentials :: "env \<Rightarrow> string \<Rightarrow> string \<Rightarrow> state \<Rightarrow> outcome" where
  "write_credentials ev cert key s =
     (case ioutil_WriteFile ev CertFile (RPCCert (Config s)) cert (files s) of
        (fs1, Some e1) \<Rightarrow>
          Return (s\<lparr>files := fst (os_Remove ev (RPCCert (Config s)) fs1), err := Some e1\<rparr>)
      | (fs1, None) \<Rightarrow>
     (case ioutil_WriteFile ev CAFileCopy (CAFile (Config s)) cert fs1 of
        (fs2, Some e2) \<Rightarrow>
          Return (s\<lparr>files := fst (os_Remove ev (RPCCert (Config s)) fs2), err := Some e2\<rparr>)
      | (fs2, None) \<Rightarrow>
     (case ioutil_WriteFile ev KeyFile (RPCKey (Config s)) key fs2 of
        (fs3, Some e3) \<Rightarrow>
          Return (s\<lparr>files := fst (os_Remove ev (CAFile (Config s))
                                   (fst (os_Remove ev (RPCCert (Config s)) fs3))),
                    err := Some e3\<rparr>)
      | (fs3, None) \<Rightarrow> Continue (s\<lparr>files := fs3, err := None\<rparr>))))"

definition tls_required :: "state \<Rightarrow> bool" where
  "tls_required s =
     ((ClientTLS (Config s) \<or> ServerTLS (Config s)) \<and>
      ((\<not> FileExists (files s) (RPCKey (Config s)) \<and> \<not> OneTimeTLSKey (Config s)) \<or>
       \<not> FileExists (files s) (RPCCert (Config s)) \<or>
       \<not> FileExists (files s) (CAFile (Config s))))"

definition provision_tls :: "env \<Rightarrow> state \<Rightarrow> outcome" where
  "provision_tls ev s =
     (if tls_required s
      then (case MkdirAll ev (Split_dir (RPCCert (Config s))) of
              Some e \<Rightarrow> Return (s\<lparr>err := Some e\<rparr>)
            | None \<Rightarrow>
           (case MkdirAll ev (Split_dir (RPCKey (Config s))) of
              Some e \<Rightarrow> Return (s\<lparr>err := Some e\<rparr>)
            | None \<Rightarrow>
           (case NewTLSCertPair ev of
              Inl e \<Rightarrow> Return (s\<lparr>err := Some e\<rparr>)
            | Inr (cert, key) \<Rightarrow>
           (case X509KeyPair ev cert key of
              Some e \<Rightarrow> Return (s\<lparr>err := Some e\<rparr>)
            | None \<Rightarrow> write_credentials ev cert key s))))
      else Continue s)"

subsection \<open>Lines 231-303: the early checks\<close>

definition check_profile :: "state \<Rightarrow> outcome" where
  "check_profile s =
     (if Profile (Config s) \<noteq> []
      then (case Atoi (Profile (Config s)) of
              None \<Rightarrow> Return (s\<lparr>err := Some (Errorf
                ''the profile port must be between 1024 and 65535, disabling profiling'' [])\<rparr>)
            | Some profilePort \<Rightarrow>
                if profilePort < 1024 \<or> profilePort > 65535
                then Return (s\<lparr>err := Some (Errorf
                  ''the profile port must be between 1024 and 65535, disabling profiling'' [])\<rparr>)
                else Continue (s\<lparr>err := None\<rparr>))
      else Continue s)"

definition check_peers :: "state \<Rightarrow> outcome" where
  "check_peers s =
     (if length (AddPeers (Config s)) > 0 \<and> length (ConnectPeers (Config s)) > 0
      then Return (s\<lparr>err := Some (Errorf
             ''the addpeers and connectpeers options can not be both set'' [])\<rparr>)
      else Continue s)"

definition check_listen :: "state \<Rightarrow> outcome" where
  "check_listen s =
     (if (ProxyAddress (Config s) \<noteq> [] \<or> length (ConnectPeers (Config s)) > 0) \<and>
         length (P2PListeners (Config s)) = 0
      then Continue (s\<lparr>Config := (Config s)\<lparr>DisableListen := True\<rparr>\<rparr>)
      else Continue s)"

definition check_relay :: "state \<Rightarrow> outcome" where
  "check_relay s =
     (if RelayNonStd (Config s) \<and> RejectNonStd (Config s)
      then Return (s\<lparr>err := Some (Errorf
             ''rejectnonstd and relaynonstd cannot be used together -- choose only one'' [])\<rparr>)
      else Continue s)"

text \<open>Lines 266-281: the error of these two checks is a local of its block; the process exits.\<close>

definition check_credentials :: "state \<Rightarrow> outcome" where
  "check_credentials s =
     (if Username (Config s) \<noteq> [] \<and> Username (Config s) = LimitUser (Config s)
        then Exit 1
      else if Password (Config s) \<noteq> [] \<and> Password (Config s) = LimitPass (Config s)
        then Exit 1
      else Continue s)"

fun check_user_agent_loop :: "string list \<Rightarrow> state \<Rightarrow> outcome" where
  "check_user_agent_loop [] s = Continue s"
| "check_user_agent_loop (uaComment # rest) s =
     (if ContainsAny uaComment ''/:()'' then Exit 1 else check_user_agent_loop rest s)"

definition check_user_agent :: "state \<Rightarrow> outcome" where
  "check_user_agent s = check_user_agent_loop (UserAgentComments (Config s)) s"

definition check_min_relay_fee :: "env \<Rightarrow> state \<Rightarrow> outcome" where
  "check_min_relay_fee ev s =
     (case NewAmount ev of
        Inl e \<Rightarrow> Exit 0
      | Inr a \<Rightarrow> Continue (s\<lparr>StateCfg := (StateCfg s)\<lparr>ActiveMinRelayTxFee := a\<rparr>,
                              err := None\<rparr>))"

subsection \<open>Lines 304-355 and 514-532: the port allocator\<close>

definition auto_listen :: "env \<Rightarrow> state \<Rightarrow> outcome" where
  "auto_listen ev s =
     (if AutoListen (Config s)
      then with_ActiveNet s (\<lambda>p.
        let p2pAddresses = map (\<lambda>addr. JoinHostPort addr (DefaultPort ev p)) (allAddresses ev)
        in case Set_P2PConnect p2pAddresses (Config s) of (c1, e1) \<Rightarrow>
             if Chk e1 then Return (s\<lparr>Config := c1, err := e1\<rparr>)
             else case Set_P2PListeners p2pAddresses c1 of (c2, e2) \<Rightarrow>
               if Chk e2 then Return (s\<lparr>Config := c2, err := e2\<rparr>)
               else Continue (s\<lparr>Config := c2, err := e2,
                                 StateCfg := (StateCfg s)\<lparr>Save := True\<rparr>\<rparr>))
      else Continue s)"

text \<open>
  \<open>GetFreePort\<close>, at its \<open>n\<close>-th call: resolve \<open>localhost:0\<close>, listen, read the port back;
  the error of closing the listener is only logged.
\<close>

definition GetFreePort :: "env \<Rightarrow> nat \<Rightarrow> error + int" where
  "GetFreePort ev n =
     (case ResolveTCPAddr ev n of
        Some e \<Rightarrow> Inl e
      | None \<Rightarrow> (case ListenTCP ev n of Inl e \<Rightarrow> Inl e | Inr port \<Rightarrow> Inr port))"

text \<open>
  The inner loop of lines 332-342 over one list, from the \<open>n\<close>-th probe on: the error
  that stops it, or the rewritten list; with either, the number of probes made so far.
  The outer loop of lines 331-343 over the lists.
\<close>

fun alloc_ports :: "env \<Rightarrow> nat \<Rightarrow> string list \<Rightarrow> (error \<times> nat) + (string list \<times> nat)" where
  "alloc_ports ev n [] = Inr ([], n)"
| "alloc_ports ev n (x # xs) =
     (case SplitHostPort x of
        Inl e \<Rightarrow> Inl (e, n)
      | Inr (h, p) \<Rightarrow>
          (case GetFreePort ev n of
             Inl e \<Rightarrow> Inl (e, Suc n)
           | Inr fP \<Rightarrow>
               (case alloc_ports ev (Suc n) xs of
                  Inl r \<Rightarrow> Inl r
                | Inr (ys, m) \<Rightarrow> Inr (JoinHostPort h (Sprint fP) # ys, m))))"

fun alloc_lists ::
  "env \<Rightarrow> nat \<Rightarrow> string list list \<Rightarrow> (error \<times> nat) + (string list list \<times> nat)" where
  "alloc_lists ev n [] = Inr ([], n)"
| "alloc_lists ev n (l # ls) =
     (case alloc_ports ev n l of
        Inl r \<Rightarrow> Inl r
      | Inr (l', m) \<Rightarrow>
          (case alloc_lists ev m ls of
             Inl r \<Rightarrow> Inl r
           | Inr (ls', k) \<Rightarrow> Inr (l' # ls', k)))"

definition auto_ports :: "env \<Rightarrow> state \<Rightarrow> outcome" where
  "auto_ports ev s =
     (if AutoPorts (Config s)
      then (case alloc_lists ev (probes s)
                   [P2PListeners (Config s), RPCListeners (Config s),
                    WalletRPCListeners (Config s)] of
              Inl (e, n) \<Rightarrow> Return (s\<lparr>err := Some e, probes := n\<rparr>)
            | Inr (p2pl, n) \<Rightarrow>
                (case p2pl of
                   [l0, l1, l2] \<Rightarrow>
                     (case Set_P2PListeners l0 (Config s) of (c0, e0) \<Rightarrow>
                        if Chk e0 then Return (s\<lparr>Config := c0, err := e0, probes := n\<rparr>)
                        else case Set_RPCListeners l1 c0 of (c1, e1) \<Rightarrow>
                          if Chk e1 then Return (s\<lparr>Config := c1, err := e1, probes := n\<rparr>)
                          else case Set_WalletRPCListeners l2 c1 of (c2, e2) \<Rightarrow>
                            if Chk e2 then Return (s\<lparr>Config := c2, err := e2, probes := n\<rparr>)
                            else Continue (s\<lparr>Config := c2, err := e2, probes := n,
                                              StateCfg := (StateCfg s)\<lparr>Save := True\<rparr>\<rparr>))
                 | _ \<Rightarrow> Panic (OSError ''index out of range'')))
      else Continue s)"

subsection \<open>Lines 356-376: the late checks\<close>

definition disable_dns_seed :: "state \<Rightarrow> outcome" where
  "disable_dns_seed s =
     (if LAN (Config s) \<or> Solo (Config s)
      then Continue (s\<lparr>Config := (Config s)\<lparr>DisableDNSSeed := True\<rparr>\<rparr>)
      else Continue s)"

definition check_rpc_login :: "state \<Rightarrow> outcome" where
  "check_rpc_login s =
     (if (Username (Config s) = [] \<or> Password (Config s) = []) \<and>
         (LimitUser (Config s) = [] \<or> LimitPass (Config s) = [])
      then Continue (s\<lparr>Config := (Config s)\<lparr>DisableRPC := True\<rparr>\<rparr>)
      else Continue s)"

definition check_rpc_max :: "state \<Rightarrow> outcome" where
  "check_rpc_max s =
     (if RPCMaxConcurrentReqs (Config s) < 0
      then Return (s\<lparr>err := Some (Errorf
        ''The rpcmaxwebsocketconcurrentrequests opt may not be less than 0 -- parsed [%d]''
        [I (RPCMaxConcurrentReqs (Config s))])\<rparr>)
      else Continue s)"

subsection \<open>Lines 377-496: the transport composer\<close>

text \<open>Lines 384-385: the baseline.\<close>

definition transport_baseline :: "state \<Rightarrow> state" where
  "transport_baseline s =
     s\<lparr>StateCfg := (StateCfg s)\<lparr>Dial := Some net_DialTimeout, Lookup := Some net_LookupIP\<rparr>\<rparr>"

text \<open>
  Lines 386-442, the block under \<open>!ProxyAddress.Empty()\<close>.  The check of lines 403-410
  stands inside this block, as in the source.
\<close>

definition proxy_block :: "state \<Rightarrow> outcome" where
  "proxy_block s =
     (if ProxyAddress (Config s) \<noteq> []
      then (case SplitHostPort (ProxyAddress (Config s)) of
              Inl a \<Rightarrow>
                Return (s\<lparr>err := Some (Errorf ''proxy address '%s' is invalid: %v''
                                         [S (ProxyAddress (Config s)), E a])\<rparr>)
            | Inr hp \<Rightarrow>
                if TorIsolation (Config s) \<and> ProxyAddress (Config s) = [] \<and>
                   OnionProxyAddress (Config s) = []
                then Return (s\<lparr>err := Some (Errorf
                  ''%s: Tor stream isolation requires either proxy or onionproxy to be set''
                  [])\<rparr>)
                else
                  (case (if \<not> OnionEnabled (Config s)
                         then Set_OnionProxyAddress [] (Config s) else (Config s, None)) of
                     (c, e) \<Rightarrow>
                       let torIsolation =
                             (TorIsolation c \<and> OnionProxyAddress c = [] \<and>
                              (ProxyUser c \<noteq> [] \<or> ProxyPass c \<noteq> []));
                           proxy = socks_Proxy (ProxyAddress c) (ProxyUser c) (ProxyPass c)
                                     torIsolation
                       in Continue (s\<lparr>Config := c, err := e,
                             StateCfg := (StateCfg s)
                               \<lparr>Dial := Some (proxy_DialTimeout proxy),
                                Lookup := (if OnionEnabled c \<and> OnionProxyAddress c = []
                                           then Some tor_lookup_proxy_closure
                                           else Lookup (StateCfg s))\<rparr>\<rparr>)))
      else Continue s)"

text \<open>
  Lines 449-465: the onion-proxy address is split; a failure is stored in \<open>e\<close> and the
  function goes on.
\<close>

definition onion_block :: "state \<Rightarrow> state" where
  "onion_block s =
     (if OnionProxyAddress (Config s) \<noteq> []
      then (case SplitHostPort (OnionProxyAddress (Config s)) of
              Inl a \<Rightarrow> s\<lparr>err := Some (Errorf ''onion proxy address '%s' is invalid: %v''
                                      [S (OnionProxyAddress (Config s)), E a])\<rparr>
            | Inr hp \<Rightarrow> s\<lparr>err := None\<rparr>)
      else s)"

text \<open>Lines 466-496: the onion dialer, the lookup re-bind, the override of \<open>--noonion\<close>.\<close>

definition set_onion_dialer :: "state \<Rightarrow> state" where
  "set_onion_dialer s = s\<lparr>StateCfg := (StateCfg s)\<lparr>Oniondial := Some onion_proxy_closure\<rparr>\<rparr>"

definition set_proxy_lookup :: "state \<Rightarrow> state" where
  "set_proxy_lookup s =
     (if ProxyAddress (Config s) \<noteq> []
      then s\<lparr>StateCfg := (StateCfg s)\<lparr>Lookup := Some tor_lookup_onionproxy_closure\<rparr>\<rparr>
      else s\<lparr>StateCfg := (StateCfg s)\<lparr>Oniondial := Dial (StateCfg s)\<rparr>\<rparr>)"

definition noonion_override :: "state \<Rightarrow> state" where
  "noonion_override s =
     (if \<not> OnionEnabled (Config s)
      then s\<lparr>StateCfg := (StateCfg s)\<lparr>Oniondial := Some tor_disabled_closure\<rparr>\<rparr>
      else s)"

definition setup_transport :: "state \<Rightarrow> outcome" where
  "setup_transport s =
     (case proxy_block (transport_baseline s) of
        Continue s1 \<Rightarrow>
          Continue (noonion_override (set_proxy_lookup (set_onion_dialer (onion_block s1))))
      | r \<Rightarrow> r)"

subsection \<open>Lines 497-512: saving the configuration, the end\<close>

definition save_config :: "env \<Rightarrow> state \<Rightarrow> outcome" where
  "save_config ev s =
     (if Save (StateCfg s) \<or> \<not> FileExists (files s) (ConfigFile (Config s))
      then (let s1 = s\<lparr>StateCfg := (StateCfg s)\<lparr>Save := False\<rparr>\<rparr>
            in if RunningCommand_Name (Config s1) = ''kopach'' then Return s1
               else (case WriteToFile ev (Config s1) of
                       Inl e \<Rightarrow> Continue s1
                     | Inr written \<Rightarrow>
                         Continue (s1\<lparr>files := (files s1)(ConfigFile (Config s1) \<mapsto> written)\<rparr>)))
      else Continue s)"

definition mark_testnet :: "env \<Rightarrow> state \<Rightarrow> outcome" where
  "mark_testnet ev s =
     with_ActiveNet s (\<lambda>p.
       if Name ev p = Name ev TestNet3Params then Continue (s\<lparr>IsTestnet := True\<rparr>)
       else Continue s)"

subsection \<open>The whole function\<close>

text \<open>
  The blocks before the credential check, those between it and the transport composer,
  and all of them.  \<open>log.SetLogLevel\<close>,
  the ready channel and the seeding of \<open>math/rand\<close> (lines 114-117) touch nothing the
  model holds.
\<close>

definition opening_stages :: "env \<Rightarrow> (state \<Rightarrow> outcome) list" where
  "opening_stages ev =
     [select_network, check_lan_solo ev, start_pipe_log, set_log_dir ev, provision_tls ev,
      check_profile, check_peers, check_listen, check_relay]"

definition closing_checks :: "env \<Rightarrow> (state \<Rightarrow> outcome) list" where
  "closing_checks ev =
     [check_user_agent, check_min_relay_fee ev, auto_listen ev, auto_ports ev,
      disable_dns_seed, check_rpc_login, check_rpc_max]"

definition early_stages :: "env \<Rightarrow> (state \<Rightarrow> outcome) list" where
  "early_stages ev = opening_stages ev @ check_credentials # closing_checks ev"

definition GetNew_stages :: "env \<Rightarrow> (state \<Rightarrow> outcome) list" where
  "GetNew_stages ev = early_stages ev @ [setup_transport, save_config ev, mark_testnet ev]"

definition GetNew :: "env \<Rightarrow> (string \<rightharpoonup> string) \<Rightarrow> config \<Rightarrow> outcome" where
  "GetNew ev fs config =
     (case Initialize ev config of
        Inl e \<Rightarrow> Panic e
      | Inr c \<Rightarrow>
          (case run_stages (GetNew_stages ev) (new_State fs c) of
             Continue s \<Rightarrow> Return s
           | r \<Rightarrow> r))"

section \<open>Sample inputs\<close>

text \<open>
  A configuration with every cell empty or false, onion routing enabled (its
  default), on mainnet; and an environment in which nothing fails: the chain
  parameters carry the names the source compares against, every write and removal
  succeeds, the \<open>n\<close>-th probe binds port \<open>40000 + n\<close>.
\<close>

definition sample_config :: config where
  "sample_config =
     \<lparr>Network = ''mainnet'', LAN = False, Solo = False, PipeLog = False,
      LogDir = ''/log'', DataDir = ''/data'', ClientTLS = False, ServerTLS = False,
      OneTimeTLSKey = False, RPCKey = ''/data/rpc.key'', RPCCert = ''/data/rpc.cert'',
      CAFile = ''/data/ca.cert'', Profile = [], AddPeers = [], ConnectPeers = [],
      P2PConnect = [], P2PListeners = [], RPCListeners = [], WalletRPCListeners = [],
      DisableListen = False, DisableDNSSeed = False, DisableRPC = False,
      RelayNonStd = False, RejectNonStd = False, Username = [], Password = [],
      LimitUser = [], LimitPass = [], UserAgentComments = [], AutoListen = False,
      AutoPorts = False, RPCMaxConcurrentReqs = 0, ProxyAddress = [], ProxyUser = [],
      ProxyPass = [], OnionEnabled = True, OnionProxyAddress = [], OnionProxyUser = [],
      OnionProxyPass = [], TorIsolation = False, ConfigFile = ''/data/pod.json'',
      RunningCommand_Name = ''node''\<rparr>"

definition sample_Name :: "chain_params \<Rightarrow> string" where
  "sample_Name p =
     (case p of MainNetParams \<Rightarrow> ''mainnet'' | TestNet3Params \<Rightarrow> ''testnet''
      | RegressionTestParams \<Rightarrow> ''regtest'' | SimNetParams \<Rightarrow> ''simnet'')"

definition sample_env :: env where
  "sample_env =
     \<lparr>Initialize = Inr, Name = sample_Name, DefaultPort = (\<lambda>p. ''11047''),
      filepath_Join = (\<lambda>a b. a @ ''/'' @ b), MkdirAll = (\<lambda>d. None),
      NewTLSCertPair = Inr (''cert'', ''key''), X509KeyPair = (\<lambda>c k. None),
      WriteFile = (\<lambda>f. Written), Remove_refused = (\<lambda>p. None), NewAmount = Inr 1000,
      allAddresses = [], ResolveTCPAddr = (\<lambda>n. None), ListenTCP = (\<lambda>n. Inr (40000 + int n)),
      WriteToFile = (\<lambda>c. Inr ''{}'')\<rparr>"

section \<open>Reading outcomes and addresses\<close>

text \<open>The state a block falls through with, and the state a return hands back.\<close>

fun continued :: "outcome \<Rightarrow> state option" where
  "continued (Continue s) = Some s"
| "continued r = None"

fun returned :: "outcome \<Rightarrow> state option" where
  "returned (Return s) = Some s"
| "returned r = None"

text \<open>
  The host \<open>SplitHostPort\<close> finds in an entry, and the port the \<open>n\<close>-th call of
  \<open>GetFreePort\<close> hands out (for entries that split and probes that succeed).
\<close>

definition split_host :: "string \<Rightarrow> string" where
  "split_host x = (case SplitHostPort x of Inr (h, p) \<Rightarrow> h | Inl e \<Rightarrow> [])"

definition splits :: "string \<Rightarrow> bool" where
  "splits x = (case SplitHostPort x of Inr hp \<Rightarrow> True | Inl e \<Rightarrow> False)"

definition probe_port :: "env \<Rightarrow> nat \<Rightarrow> int" where
  "probe_port ev n = (case GetFreePort ev n of Inr port \<Rightarrow> port | Inl e \<Rightarrow> 0)"

definition probe_ok :: "env \<Rightarrow> nat \<Rightarrow> bool" where
  "probe_ok ev n = (case GetFreePort ev n of Inr port \<Rightarrow> True | Inl e \<Rightarrow> False)"

section \<open>Running the blocks in sequence\<close>

lemma run_stages_append:
  "run_stages (fs @ gs) s = (case run_stages fs s of Continue s' \<Rightarrow> run_stages gs s' | r \<Rightarrow> r)"
  by (induction fs arbitrary: s) (auto split: outcome.splits)

section \<open>The network selector\<close>

text \<open>
  Claim C9.  The switch of lines 130-147 always falls through, with exactly one of
  the four parameter sets: the tokens \<open>testnet\<close>, \<open>testnet3\<close>, \<open>t\<close> select the test
  network and set \<open>fork.IsTestnet\<close>; \<open>regtestnet\<close>, \<open>regressiontest\<close>, \<open>r\<close> select the
  regression test network; \<open>simnet\<close>, \<open>s\<close> the simulation network; every other token,
  the empty one too, selects the main network, and the result \<open>e\<close> is left as it was.
\<close>

theorem network_selector:
  "(Network (Config s) \<in> {''testnet'', ''testnet3'', ''t''} \<longrightarrow>
      select_network s = Continue (s\<lparr>ActiveNet := Some TestNet3Params, IsTestnet := True\<rparr>)) \<and>
   (Network (Config s) \<in> {''regtestnet'', ''regressiontest'', ''r''} \<longrightarrow>
      select_network s = Continue (s\<lparr>ActiveNet := Some RegressionTestParams, IsTestnet := True\<rparr>)) \<and>
   (Network (Config s) \<in> {''simnet'', ''s''} \<longrightarrow>
      select_network s = Continue (s\<lparr>ActiveNet := Some SimNetParams, IsTestnet := True\<rparr>)) \<and>
   (Network (Config s) \<notin> {''testnet'', ''testnet3'', ''t'', ''regtestnet'', ''regressiontest'', ''r'',
                             ''simnet'', ''s''} \<longrightarrow>
      select_network s = Continue (s\<lparr>ActiveNet := Some MainNetParams\<rparr>))"
  by (auto simp: select_network_def)

theorem network_selector_witness:
  "select_network (new_State Map.empty (sample_config\<lparr>Network := ''testnet3''\<rparr>)) =
     Continue ((new_State Map.empty (sample_config\<lparr>Network := ''testnet3''\<rparr>))
                 \<lparr>ActiveNet := Some TestNet3Params, IsTestnet := True\<rparr>) \<and>
   select_network (new_State Map.empty (sample_config\<lparr>Network := ''r''\<rparr>)) =
     Continue ((new_State Map.empty (sample_config\<lparr>Network := ''r''\<rparr>))
                 \<lparr>ActiveNet := Some RegressionTestParams, IsTestnet := True\<rparr>) \<and>
   select_network (new_State Map.empty (sample_config\<lparr>Network := ''simnet''\<rparr>)) =
     Continue ((new_State Map.empty (sample_config\<lparr>Network := ''simnet''\<rparr>))
                 \<lparr>ActiveNet := Some SimNetParams, IsTestnet := True\<rparr>) \<and>
   select_network (new_State Map.empty (sample_config\<lparr>Network := []\<rparr>)) =
     Continue ((new_State Map.empty (sample_config\<lparr>Network := []\<rparr>))
                 \<lparr>ActiveNet := Some MainNetParams\<rparr>)"
  using network_selector [of "new_State Map.empty (sample_config\<lparr>Network := ''testnet3''\<rparr>)"]
        network_selector [of "new_State Map.empty (sample_config\<lparr>Network := ''r''\<rparr>)"]
        network_selector [of "new_State Map.empty (sample_config\<lparr>Network := ''simnet''\<rparr>)"]
        network_selector [of "new_State Map.empty (sample_config\<lparr>Network := []\<rparr>)"]
  by (simp add: new_State_def sample_config_def)

end
